theory Spec2Isabelle
  imports Main "HOL-Library.Word"
begin

section \<open>Strings and numbers of the source language\<close>

text \<open>
  A string of the source is a sequence of UTF-16 code units; every regular expression of
  the program is written without the unicode flag, so it consumes one code unit at a time.
  \<open>js\<close> writes an ASCII literal; other code units are written as numbers
  (\<open>0xB0\<close> is the degree sign, \<open>0xF8\<close> the o with stroke, \<open>0x394\<close> the capital delta).
\<close>

type_synonym jsstring = "16 word list"

definition js :: "string \<Rightarrow> jsstring" where
  "js s = map of_char s"

text \<open>The line terminators: the code units that \<open>.\<close> of a regular expression refuses.\<close>

definition isLineTerminator :: "16 word \<Rightarrow> bool" where
  "isLineTerminator c = (c = 0x0A \<or> c = 0x0D \<or> c = 0x2028 \<or> c = 0x2029)"

text \<open>
  The code units matched by \<open>\s\<close> and removed by \<open>trim()\<close>: white space (tab, VT, FF,
  the space separators, the byte order mark) and the line terminators.
\<close>

definition isWhiteSpace :: "16 word \<Rightarrow> bool" where
  "isWhiteSpace c =
     (c = 0x09 \<or> c = 0x0B \<or> c = 0x0C \<or> c = 0x20 \<or> c = 0xA0 \<or> c = 0x1680 \<or>
      (0x2000 \<le> c \<and> c \<le> 0x200A) \<or> c = 0x202F \<or> c = 0x205F \<or> c = 0x3000 \<or>
      c = 0xFEFF \<or> isLineTerminator c)"

definition trim :: "jsstring \<Rightarrow> jsstring" where
  "trim s = rev (dropWhile isWhiteSpace (rev (dropWhile isWhiteSpace s)))"

text \<open>\<open>s.replace(/\s+/g, "")\<close>: every run of white space is deleted.\<close>

definition removeWhiteSpace :: "jsstring \<Rightarrow> jsstring" where
  "removeWhiteSpace s = filter (\<lambda>c. \<not> isWhiteSpace c) s"

text \<open>
  \<open>toUpperCase\<close> and \<open>toLowerCase\<close> on the ASCII letters; other code units are kept.
  The program applies them to a matched letter \<open>[A-Ga-g]\<close>, to a matched run \<open>[ivIV]+\<close>,
  and to the left-hand side of a slash before \<open>startsWith("V")\<close>, whose first code unit
  is one of \<open>ivIV\<close> at that point: in each place the outcome depends on ASCII letters only.
\<close>

definition toUpperCaseUnit :: "16 word \<Rightarrow> 16 word" where
  "toUpperCaseUnit c = (if 0x61 \<le> c \<and> c \<le> 0x7A then c - 0x20 else c)"

definition toLowerCaseUnit :: "16 word \<Rightarrow> 16 word" where
  "toLowerCaseUnit c = (if 0x41 \<le> c \<and> c \<le> 0x5A then c + 0x20 else c)"

definition toUpperCase :: "jsstring \<Rightarrow> jsstring" where
  "toUpperCase s = map toUpperCaseUnit s"

definition toLowerCase :: "jsstring \<Rightarrow> jsstring" where
  "toLowerCase s = map toLowerCaseUnit s"

text \<open>
  The numbers of the program are pitch classes, intervals and fret numbers: integers.
  \<open>a % b\<close> on integers is the remainder of the division truncated towards zero, with
  the sign of \<open>a\<close>. The source computes in double precision, which is exact on integers
  of magnitude below \<open>2 ^ 53\<close>; the model is the source on such numbers, far beyond any
  pitch class or fret number.
\<close>

definition jsrem :: "int \<Rightarrow> int \<Rightarrow> int" where
  "jsrem a b = (if a < 0 then - ((- a) mod \<bar>b\<bar>) else a mod \<bar>b\<bar>)"

section \<open>Pitch model (pitch.ts)\<close>

definition LETTER_TO_PC :: "jsstring \<rightharpoonup> int" where
  "LETTER_TO_PC = map_of
     [(js ''C'', 0), (js ''D'', 2), (js ''E'', 4), (js ''F'', 5), (js ''G'', 7),
      (js ''A'', 9), (js ''B'', 11)]"

definition SHARP_NAMES :: "jsstring list" where
  "SHARP_NAMES = [js ''C'', js ''C#'', js ''D'', js ''D#'', js ''E'', js ''F'', js ''F#'',
     js ''G'', js ''G#'', js ''A'', js ''A#'', js ''B'']"

definition FLAT_NAMES :: "jsstring list" where
  "FLAT_NAMES = [js ''C'', js ''Db'', js ''D'', js ''Eb'', js ''E'', js ''F'', js ''Gb'',
     js ''G'', js ''Ab'', js ''A'', js ''Bb'', js ''B'']"

definition normalizeNoteName :: "jsstring \<Rightarrow> jsstring" where
  "normalizeNoteName input = removeWhiteSpace (trim input)"

text \<open>The character classes \<open>[A-Ga-g]\<close> and \<open>[#b]\<close>.\<close>

definition isNoteLetter :: "16 word \<Rightarrow> bool" where
  "isNoteLetter c = ((0x41 \<le> c \<and> c \<le> 0x47) \<or> (0x61 \<le> c \<and> c \<le> 0x67))"

definition isAccidental :: "16 word \<Rightarrow> bool" where
  "isAccidental c = (c = 0x23 \<or> c = 0x62)"

text \<open>
  \<open>/^([A-Ga-g])([#b]?)/.exec(s)\<close>: the two groups of the match and what follows it, or
  \<open>None\<close> when the first code unit is no note letter. The optional group is greedy, and
  nothing comes after it in the pattern, so it takes an accidental whenever one is there.
\<close>

definition matchNote :: "jsstring \<Rightarrow> (jsstring \<times> jsstring \<times> jsstring) option" where
  "matchNote s =
     (case s of
        [] \<Rightarrow> None
      | c # rest \<Rightarrow>
          if \<not> isNoteLetter c then None
          else (case rest of
                  [] \<Rightarrow> Some ([c], [], [])
                | a # rest' \<Rightarrow>
                    if isAccidental a then Some ([c], [a], rest') else Some ([c], [], rest)))"

definition toPitchClass :: "jsstring \<Rightarrow> int option" where
  "toPitchClass note =
     (let cleaned = normalizeNoteName note in
      case matchNote cleaned of
        None \<Rightarrow> None
      | Some (m1, m2, _) \<Rightarrow>
          (let letter = toUpperCase m1; accidental = m2 in
           case LETTER_TO_PC letter of
             None \<Rightarrow> None
           | Some base \<Rightarrow>
               (let pc = base;
                    pc = (if accidental = js ''#'' then pc + 1 else pc);
                    pc = (if accidental = js ''b'' then pc - 1 else pc)
                in Some (jsrem (pc + 12) 12))))"

text \<open>
  The index \<open>((pc % 12) + 12) % 12\<close> lies in \<open>0..11\<close> for every integer, so the table
  lookup never leaves the table (lemma \<open>formatPitchClass_index\<close>).
\<close>

definition formatPitchClass :: "int \<Rightarrow> bool \<Rightarrow> jsstring" where
  "formatPitchClass pc preferFlats =
     (let index = jsrem (jsrem pc 12 + 12) 12
      in if preferFlats then FLAT_NAMES ! nat index else SHARP_NAMES ! nat index)"

definition preferFlatsForKey :: "jsstring \<Rightarrow> bool" where
  "preferFlatsForKey keyTonic = (0x62 \<in> set keyTonic)"

section \<open>Scales (scales.ts)\<close>

datatype KeyType = Major | Minor

definition MAJOR_SCALE :: "int list" where
  "MAJOR_SCALE = [0, 2, 4, 5, 7, 9, 11]"

definition NATURAL_MINOR_SCALE :: "int list" where
  "NATURAL_MINOR_SCALE = [0, 2, 3, 5, 7, 8, 10]"

definition buildScale :: "int \<Rightarrow> KeyType \<Rightarrow> int list" where
  "buildScale rootPc keyType =
     (let intervals = (if keyType = Major then MAJOR_SCALE else NATURAL_MINOR_SCALE)
      in map (\<lambda>interval. jsrem (rootPc + interval) 12) intervals)"

section \<open>Chord model and literal parser (chords.ts)\<close>

text \<open>The qualities \<open>"6"\<close> and \<open>"9"\<close> of the source are \<open>Six\<close> and \<open>Nine\<close>.\<close>

datatype ChordQuality =
  Maj | Min | Dim | Aug | Sus2 | Sus4 | Dom7 | Maj7 | Min7 | M7b5 | Add9 | Six | Nine

record ResolvedChord =
  root :: int
  quality :: ChordQuality
  intervals :: "int list"

fun CHORD_QUALITY_INTERVALS :: "ChordQuality \<Rightarrow> int list" where
  "CHORD_QUALITY_INTERVALS Maj = [0, 4, 7]"
| "CHORD_QUALITY_INTERVALS Min = [0, 3, 7]"
| "CHORD_QUALITY_INTERVALS Dim = [0, 3, 6]"
| "CHORD_QUALITY_INTERVALS Aug = [0, 4, 8]"
| "CHORD_QUALITY_INTERVALS Sus2 = [0, 2, 7]"
| "CHORD_QUALITY_INTERVALS Sus4 = [0, 5, 7]"
| "CHORD_QUALITY_INTERVALS Dom7 = [0, 4, 7, 10]"
| "CHORD_QUALITY_INTERVALS Maj7 = [0, 4, 7, 11]"
| "CHORD_QUALITY_INTERVALS Min7 = [0, 3, 7, 10]"
| "CHORD_QUALITY_INTERVALS M7b5 = [0, 3, 6, 10]"
| "CHORD_QUALITY_INTERVALS Add9 = [0, 4, 7, 14]"
| "CHORD_QUALITY_INTERVALS Six = [0, 4, 7, 9]"
| "CHORD_QUALITY_INTERVALS Nine = [0, 4, 7, 10, 14]"

text \<open>
  The failures of the two parsers, one constructor per message of the source:
  "Invalid chord root.", "Unsupported chord suffix: ..." (with the suffix, or "(none)"),
  "Empty roman numeral.", "Too many secondary dominants.", "Invalid roman numeral.",
  "Invalid key tonic.", "Unsupported roman numeral quality.", "Invalid secondary target.",
  and "Only V/x or VII(degree sign)/x supported in MVP.".
\<close>

datatype error =
  InvalidChordRoot
| UnsupportedChordSuffix jsstring
| EmptyRomanNumeral
| TooManySecondaryDominants
| InvalidRomanNumeral
| InvalidKeyTonic
| UnsupportedRomanQuality
| InvalidSecondaryTarget
| OnlyVOrVIISupported

type_synonym ParseResult = "error + ResolvedChord"

text \<open>
  Matching with the flag \<open>i\<close> (and no unicode flag) compares code units after the
  canonicalisation of the language: a code unit is replaced by its upper-case form when
  that form is one code unit, except that a non-ASCII unit never becomes an ASCII one.
  The patterns of this program hold ASCII characters, the degree sign \<open>0xB0\<close>, the o with
  stroke \<open>0xF8\<close> (upper case \<open>0xD8\<close>) and the capital delta \<open>0x394\<close> (lower case
  \<open>0x3B4\<close>). The function below is the canonicalisation on the units that can be equal
  to one of those after it, and the identity elsewhere; a unit it leaves alone is equal to
  no pattern character before or after canonicalisation.
\<close>

definition canonicalize :: "16 word \<Rightarrow> 16 word" where
  "canonicalize c =
     (if 0x61 \<le> c \<and> c \<le> 0x7A then c - 0x20
      else if c = 0xF8 then 0xD8
      else if c = 0x3B4 then 0x394
      else c)"

text \<open>
  \<open>/^(?:a1|a2|...)$/i.test(s)\<close> for alternatives that are plain strings: the whole of
  \<open>s\<close> is one of the alternatives, up to case.
\<close>

definition testWholeCI :: "jsstring list \<Rightarrow> jsstring \<Rightarrow> bool" where
  "testWholeCI alts s = list_ex (\<lambda>alt. map canonicalize s = map canonicalize alt) alts"

definition LITERAL_SUFFIXES :: "(jsstring list \<times> ChordQuality) list" where
  "LITERAL_SUFFIXES =
     [([js ''maj7'', js ''M7'', [0x394, 0x37]], Maj7),
      ([js ''m7b5'', [0xF8]], M7b5),
      ([js ''min7'', js ''m7''], Min7),
      ([js ''7''], Dom7),
      ([js ''min'', js ''m'', js ''-''], Min),
      ([js ''dim'', [0xB0]], Dim),
      ([js ''aug'', js ''+''], Aug),
      ([js ''sus2''], Sus2),
      ([js ''sus4''], Sus4),
      ([js ''add9''], Add9),
      ([js ''6''], Six),
      ([js ''9''], Nine),
      ([[]], Maj)]"

text \<open>
  \<open>/^([A-Ga-g])([#b]?)(.*)$/.exec(s)\<close>: as \<open>matchNote\<close>, and the rest must reach the
  end of the string without a line terminator. Giving the accidental back to the third
  group leaves every line terminator where it is, so backtracking finds no other match.
\<close>

definition matchChord :: "jsstring \<Rightarrow> (jsstring \<times> jsstring \<times> jsstring) option" where
  "matchChord s =
     (case matchNote s of
        None \<Rightarrow> None
      | Some (m1, m2, m3) \<Rightarrow>
          if list_ex isLineTerminator m3 then None else Some (m1, m2, m3))"

definition parseLiteralChord :: "jsstring \<Rightarrow> ParseResult" where
  "parseLiteralChord input =
     (let trimmed = trim input in
      case matchChord trimmed of
        None \<Rightarrow> Inl InvalidChordRoot
      | Some (m1, m2, m3) \<Rightarrow>
          (let rootName = toUpperCase m1 @ m2;
               suffix = trim m3
           in case toPitchClass rootName of
                None \<Rightarrow> Inl InvalidChordRoot
              | Some rootPc \<Rightarrow>
                  (case find (\<lambda>entry. testWholeCI (fst entry) suffix) LITERAL_SUFFIXES of
                     None \<Rightarrow>
                       Inl (UnsupportedChordSuffix (if suffix = [] then js ''(none)'' else suffix))
                   | Some qualityEntry \<Rightarrow>
                       (let q = snd qualityEntry
                        in Inr \<lparr>root = rootPc, quality = q,
                                intervals = CHORD_QUALITY_INTERVALS q\<rparr>))))"

definition chordToneSet :: "ResolvedChord \<Rightarrow> int list" where
  "chordToneSet chord = map (\<lambda>interval. jsrem (root chord + interval) 12) (intervals chord)"

section \<open>Roman numeral parser (roman.ts)\<close>

definition ROMAN_DEGREES :: "jsstring \<rightharpoonup> int" where
  "ROMAN_DEGREES = map_of
     [(js ''I'', 1), (js ''II'', 2), (js ''III'', 3), (js ''IV'', 4), (js ''V'', 5),
      (js ''VI'', 6), (js ''VII'', 7)]"

record RomanParts =
  accidental :: int
  degree :: int
  isLower :: bool
  suffix :: jsstring

text \<open>The character class \<open>[ivIV]\<close>.\<close>

definition isRomanLetter :: "16 word \<Rightarrow> bool" where
  "isRomanLetter c = (c = 0x69 \<or> c = 0x76 \<or> c = 0x49 \<or> c = 0x56)"

text \<open>
  \<open>/^([b#]?)([ivIV]+)(.*)$/.exec(s)\<close>. A leading \<open>b\<close> or \<open>#\<close> goes to the first group
  (without it the second group would have to start at that character, which is no roman
  letter); the second group is the longest run of roman letters, at least one; the third
  is the rest, which must hold no line terminator. A shorter second group leaves the
  same line terminators in the rest, so backtracking finds no other match.
\<close>

definition matchRoman :: "jsstring \<Rightarrow> (jsstring \<times> jsstring \<times> jsstring) option" where
  "matchRoman s =
     (let m1 = (case s of [] \<Rightarrow> [] | c # _ \<Rightarrow> if isAccidental c then [c] else []);
          rest = drop (length m1) s;
          m2 = takeWhile isRomanLetter rest;
          m3 = dropWhile isRomanLetter rest
      in if m2 = [] \<or> list_ex isLineTerminator m3 then None else Some (m1, m2, m3))"

text \<open>
  \<open>if (!degree) return null\<close> refuses a numeral that is no key of the table; the table
  holds no zero.
\<close>

definition parseRomanPart :: "jsstring \<Rightarrow> RomanParts option" where
  "parseRomanPart input =
     (case matchRoman input of
        None \<Rightarrow> None
      | Some (m1, m2, m3) \<Rightarrow>
          (let acc = (if m1 = js ''b'' then - 1 else if m1 = js ''#'' then 1 else 0);
               roman = m2
           in case ROMAN_DEGREES (toUpperCase roman) of
                None \<Rightarrow> None
              | Some d \<Rightarrow>
                  if d = 0 then None
                  else Some \<lparr>accidental = acc, degree = d,
                             isLower = (roman = toLowerCase roman), suffix = m3\<rparr>))"

text \<open>
  \<open>/p/i.test(s)\<close> for a plain string \<open>p\<close>: \<open>p\<close> occurs somewhere in \<open>s\<close>, up to case.
\<close>

definition startsWithCI :: "jsstring \<Rightarrow> jsstring \<Rightarrow> bool" where
  "startsWithCI p s =
     (length p \<le> length s \<and> map canonicalize (take (length p) s) = map canonicalize p)"

fun includesCI :: "jsstring \<Rightarrow> jsstring \<Rightarrow> bool" where
  "includesCI p [] = (p = [])"
| "includesCI p (c # cs) = (startsWithCI p (c # cs) \<or> includesCI p cs)"

text \<open>
  The three tests of the source are \<open>/(o with stroke)/\<close> (case-sensitive),
  \<open>/(degree sign)|dim|o/i\<close> and \<open>/\+|aug/i\<close>. The result type of the source admits
  \<open>null\<close>, hence the option.
\<close>

definition qualityFromRoman :: "RomanParts \<Rightarrow> ChordQuality option" where
  "qualityFromRoman parts =
     (let sfx = suffix parts in
      if 0xF8 \<in> set sfx then Some M7b5
      else if includesCI [0xB0] sfx \<or> includesCI (js ''dim'') sfx \<or> includesCI (js ''o'') sfx
        then Some Dim
      else if includesCI (js ''+'') sfx \<or> includesCI (js ''aug'') sfx then Some Aug
      else Some (if isLower parts then Min else Maj))"

text \<open>\<open>s.split("/")\<close> for a one-character separator; the result is never empty.\<close>

fun splitOn :: "16 word \<Rightarrow> jsstring \<Rightarrow> jsstring list" where
  "splitOn sep [] = [[]]"
| "splitOn sep (c # cs) =
     (if c = sep then [] # splitOn sep cs
      else (case splitOn sep cs of
              [] \<Rightarrow> [[c]]
            | p # ps \<Rightarrow> (c # p) # ps))"

definition startsWith :: "jsstring \<Rightarrow> jsstring \<Rightarrow> bool" where
  "startsWith s p = (take (length p) s = p)"

text \<open>\<open>s.replace(/^[b#]?/i, "")\<close>: a leading \<open>b\<close>, \<open>B\<close> or \<open>#\<close> is removed.\<close>

definition stripAccidentalCI :: "jsstring \<Rightarrow> jsstring" where
  "stripAccidentalCI s =
     (case s of
        [] \<Rightarrow> []
      | c # cs \<Rightarrow> if isAccidental c \<or> c = 0x42 then cs else s)"

text \<open>
  The closure \<open>resolveDegree\<close> of the source, with the scale it captures as a parameter.
  It is called with a degree of \<open>ROMAN_DEGREES\<close> (1 to 7) on a scale of seven notes, so
  the index is in range.
\<close>

definition resolveDegree :: "int list \<Rightarrow> int \<Rightarrow> int \<Rightarrow> int" where
  "resolveDegree keyScale deg acc =
     (let base = keyScale ! nat (deg - 1) in jsrem (base + acc + 12) 12)"

definition parseRomanNumeral :: "jsstring \<Rightarrow> jsstring \<Rightarrow> KeyType \<Rightarrow> ParseResult" where
  "parseRomanNumeral input keyTonic keyType =
     (let trimmed = removeWhiteSpace (trim input) in
      if trimmed = [] then Inl EmptyRomanNumeral
      else
        (let pieces = splitOn 0x2F trimmed in
         if length pieces > 2 then Inl TooManySecondaryDominants
         else
           (case parseRomanPart (pieces ! 0) of
              None \<Rightarrow> Inl InvalidRomanNumeral
            | Some main \<Rightarrow>
                (case toPitchClass keyTonic of
                   None \<Rightarrow> Inl InvalidKeyTonic
                 | Some keyRoot \<Rightarrow>
                     (let keyScale = buildScale keyRoot keyType in
                      case qualityFromRoman main of
                        None \<Rightarrow> Inl UnsupportedRomanQuality
                      | Some mainQuality \<Rightarrow>
                          (let chordAt = (\<lambda>r. Inr \<lparr>root = r, quality = mainQuality,
                                 intervals = CHORD_QUALITY_INTERVALS mainQuality\<rparr>)
                           in if length pieces = 2 then
                                (case parseRomanPart (pieces ! 1) of
                                   None \<Rightarrow> Inl InvalidSecondaryTarget
                                 | Some target \<Rightarrow>
                                     (let targetRoot =
                                            resolveDegree keyScale (degree target) (accidental target);
                                          baseRoman = toUpperCase (stripAccidentalCI (pieces ! 0))
                                      in if startsWith baseRoman (js ''V'')
                                           then chordAt (jsrem (targetRoot + 7) 12)
                                         else if startsWith baseRoman (js ''VII'')
                                           then chordAt (jsrem (targetRoot + 11) 12)
                                         else Inl OnlyVOrVIISupported))
                              else chordAt
                                (resolveDegree keyScale (degree main) (accidental main))))))))"

section \<open>CAGED regions (caged.ts)\<close>

datatype CagedRegionId = ShapeC | ShapeA | ShapeG | ShapeE | ShapeD

record CagedRegion =
  id_region :: CagedRegionId
  label_region :: jsstring
  fretStart :: int
  fretEnd :: int

record CagedTemplate =
  id_template :: CagedRegionId
  label_template :: jsstring
  anchorFret :: int
  startOffset :: int
  endOffset :: int

definition C_MAJOR_TEMPLATES :: "CagedTemplate list" where
  "C_MAJOR_TEMPLATES =
     [\<lparr>id_template = ShapeC, label_template = js ''C shape'', anchorFret = 3,
        startOffset = - 3, endOffset = 1\<rparr>,
      \<lparr>id_template = ShapeA, label_template = js ''A shape'', anchorFret = 3,
        startOffset = - 1, endOffset = 3\<rparr>,
      \<lparr>id_template = ShapeG, label_template = js ''G shape'', anchorFret = 3,
        startOffset = - 1, endOffset = 3\<rparr>,
      \<lparr>id_template = ShapeE, label_template = js ''E shape'', anchorFret = 8,
        startOffset = - 1, endOffset = 3\<rparr>,
      \<lparr>id_template = ShapeD, label_template = js ''D shape'', anchorFret = 10,
        startOffset = - 2, endOffset = 2\<rparr>]"

definition A_MINOR_TEMPLATES :: "CagedTemplate list" where
  "A_MINOR_TEMPLATES =
     [\<lparr>id_template = ShapeA, label_template = js ''A shape'', anchorFret = 0,
        startOffset = 0, endOffset = 3\<rparr>,
      \<lparr>id_template = ShapeG, label_template = js ''G shape'', anchorFret = 5,
        startOffset = - 2, endOffset = 2\<rparr>,
      \<lparr>id_template = ShapeE, label_template = js ''E shape'', anchorFret = 5,
        startOffset = - 1, endOffset = 3\<rparr>,
      \<lparr>id_template = ShapeD, label_template = js ''D shape'', anchorFret = 10,
        startOffset = - 2, endOffset = 2\<rparr>,
      \<lparr>id_template = ShapeC, label_template = js ''C shape'', anchorFret = 12,
        startOffset = - 3, endOffset = 1\<rparr>]"

text \<open>The window of the source, an object of a start and an end fret, is a pair.\<close>

definition clampWindow :: "int \<Rightarrow> int \<Rightarrow> int \<Rightarrow> int \<Rightarrow> (int \<times> int) option" where
  "clampWindow fStart fEnd mn mx =
     (let start = max mn fStart;
          endFret = min mx fEnd
      in if endFret < mn \<or> start > mx \<or> start > endFret then None
         else Some (start, endFret))"

text \<open>
  One round of the \<open>forEach\<close> of \<open>chooseShift\<close>; the state is
  \<open>(bestShift, bestOverlap)\<close>.
\<close>

definition chooseShiftStep :: "int \<Rightarrow> int \<Rightarrow> int \<Rightarrow> int \<Rightarrow> int \<Rightarrow> int \<times> int \<Rightarrow> int \<times> int" where
  "chooseShiftStep baseStart baseEnd mn mx shift best =
     (case clampWindow (baseStart + shift) (baseEnd + shift) mn mx of
        None \<Rightarrow> best
      | Some (wStart, wEnd) \<Rightarrow>
          (let overlap = wEnd - wStart
           in if overlap > snd best then (shift, overlap) else best))"

definition chooseShift :: "int \<Rightarrow> int \<Rightarrow> int \<Rightarrow> int \<Rightarrow> int \<Rightarrow> int" where
  "chooseShift baseStart baseEnd diff mn mx =
     (let shifts = [diff, diff - 12];
          bestShift = shifts ! 0;
          bestOverlap = - 1
      in fst (fold (chooseShiftStep baseStart baseEnd mn mx) shifts (bestShift, bestOverlap)))"

text \<open>The \<open>map\<close> to a region or \<open>null\<close>, followed by the \<open>filter\<close> that drops the nulls.\<close>

definition regionOfTemplate :: "int \<Rightarrow> int \<Rightarrow> int \<Rightarrow> CagedTemplate \<Rightarrow> CagedRegion option" where
  "regionOfTemplate diff fretMin fretMax template =
     (let baseStart = anchorFret template + startOffset template;
          baseEnd = anchorFret template + endOffset template;
          shift = chooseShift baseStart baseEnd diff fretMin fretMax
      in case clampWindow (baseStart + shift) (baseEnd + shift) fretMin fretMax of
           None \<Rightarrow> None
         | Some (wStart, wEnd) \<Rightarrow>
             Some \<lparr>id_region = id_template template, label_region = label_template template,
                   fretStart = wStart, fretEnd = wEnd\<rparr>)"

definition getCagedRegionsForKey :: "int \<Rightarrow> KeyType \<Rightarrow> int \<Rightarrow> int \<Rightarrow> CagedRegion list" where
  "getCagedRegionsForKey keyTonicPc keyType fretMin fretMax =
     (let baseKeyPc = (if keyType = Major then 0 else 9);
          diff = jsrem (keyTonicPc - baseKeyPc + 12) 12;
          templates = (if keyType = Major then C_MAJOR_TEMPLATES else A_MINOR_TEMPLATES)
      in List.map_filter (regionOfTemplate diff fretMin fretMax) templates)"

section \<open>Voicings (voicings/index.ts)\<close>

datatype BaseRoot = RootE | RootA | RootC | RootD | RootG

record VoicingShape =
  id_shape :: jsstring
  name_shape :: jsstring
  quality_shape :: ChordQuality
  baseRoot :: BaseRoot
  frets :: "int list"
  movable :: bool

definition VOICINGS :: "VoicingShape list" where
  "VOICINGS =
     [\<lparr>id_shape = js ''open-c-maj'', name_shape = js ''Open C'', quality_shape = Maj,
        baseRoot = RootC, frets = [- 1, 3, 2, 0, 1, 0], movable = False\<rparr>,
      \<lparr>id_shape = js ''open-c-min'', name_shape = js ''Open Cm (alt)'', quality_shape = Min,
        baseRoot = RootC, frets = [- 1, 3, 1, 0, 1, 3], movable = False\<rparr>,
      \<lparr>id_shape = js ''open-d-maj'', name_shape = js ''Open D'', quality_shape = Maj,
        baseRoot = RootD, frets = [- 1, - 1, 0, 2, 3, 2], movable = False\<rparr>,
      \<lparr>id_shape = js ''open-d-min'', name_shape = js ''Open Dm'', quality_shape = Min,
        baseRoot = RootD, frets = [- 1, - 1, 0, 2, 3, 1], movable = False\<rparr>,
      \<lparr>id_shape = js ''open-e-maj'', name_shape = js ''Open E'', quality_shape = Maj,
        baseRoot = RootE, frets = [0, 2, 2, 1, 0, 0], movable = False\<rparr>,
      \<lparr>id_shape = js ''open-e-min'', name_shape = js ''Open Em'', quality_shape = Min,
        baseRoot = RootE, frets = [0, 2, 2, 0, 0, 0], movable = False\<rparr>,
      \<lparr>id_shape = js ''open-g-maj'', name_shape = js ''Open G'', quality_shape = Maj,
        baseRoot = RootG, frets = [3, 2, 0, 0, 0, 3], movable = False\<rparr>,
      \<lparr>id_shape = js ''open-a-maj'', name_shape = js ''Open A'', quality_shape = Maj,
        baseRoot = RootA, frets = [- 1, 0, 2, 2, 2, 0], movable = False\<rparr>,
      \<lparr>id_shape = js ''open-a-min'', name_shape = js ''Open Am'', quality_shape = Min,
        baseRoot = RootA, frets = [- 1, 0, 2, 2, 1, 0], movable = False\<rparr>,
      \<lparr>id_shape = js ''e-shape-maj'', name_shape = js ''E-shape Maj'', quality_shape = Maj,
        baseRoot = RootE, frets = [0, 2, 2, 1, 0, 0], movable = True\<rparr>,
      \<lparr>id_shape = js ''e-shape-min'', name_shape = js ''E-shape Min'', quality_shape = Min,
        baseRoot = RootE, frets = [0, 2, 2, 0, 0, 0], movable = True\<rparr>,
      \<lparr>id_shape = js ''e-shape-dom7'', name_shape = js ''E-shape 7'', quality_shape = Dom7,
        baseRoot = RootE, frets = [0, 2, 0, 1, 0, 0], movable = True\<rparr>,
      \<lparr>id_shape = js ''e-shape-maj7'', name_shape = js ''E-shape Maj7'', quality_shape = Maj7,
        baseRoot = RootE, frets = [0, 2, 1, 1, 0, 0], movable = True\<rparr>,
      \<lparr>id_shape = js ''e-shape-min7'', name_shape = js ''E-shape Min7'', quality_shape = Min7,
        baseRoot = RootE, frets = [0, 2, 0, 0, 0, 0], movable = True\<rparr>,
      \<lparr>id_shape = js ''a-shape-maj'', name_shape = js ''A-shape Maj'', quality_shape = Maj,
        baseRoot = RootA, frets = [- 1, 0, 2, 2, 2, 0], movable = True\<rparr>,
      \<lparr>id_shape = js ''a-shape-min'', name_shape = js ''A-shape Min'', quality_shape = Min,
        baseRoot = RootA, frets = [- 1, 0, 2, 2, 1, 0], movable = True\<rparr>,
      \<lparr>id_shape = js ''a-shape-dom7'', name_shape = js ''A-shape 7'', quality_shape = Dom7,
        baseRoot = RootA, frets = [- 1, 0, 2, 0, 2, 0], movable = True\<rparr>,
      \<lparr>id_shape = js ''a-shape-maj7'', name_shape = js ''A-shape Maj7'', quality_shape = Maj7,
        baseRoot = RootA, frets = [- 1, 0, 2, 1, 2, 0], movable = True\<rparr>,
      \<lparr>id_shape = js ''a-shape-min7'', name_shape = js ''A-shape Min7'', quality_shape = Min7,
        baseRoot = RootA, frets = [- 1, 0, 2, 0, 1, 0], movable = True\<rparr>]"

fun BASE_ROOT_PC :: "BaseRoot \<Rightarrow> int" where
  "BASE_ROOT_PC RootC = 0"
| "BASE_ROOT_PC RootD = 2"
| "BASE_ROOT_PC RootE = 4"
| "BASE_ROOT_PC RootG = 7"
| "BASE_ROOT_PC RootA = 9"

definition resolveVoicingFrets :: "VoicingShape \<Rightarrow> int \<Rightarrow> int list" where
  "resolveVoicingFrets shape targetRoot =
     (if \<not> movable shape then frets shape
      else
        (let basePc = BASE_ROOT_PC (baseRoot shape);
             offset = jsrem (targetRoot - basePc + 12) 12
         in map (\<lambda>fret. if fret < 0 then - 1 else fret + offset) (frets shape)))"

section \<open>Evaluation rules\<close>

lemmas string_defs = js_def isLineTerminator_def isWhiteSpace_def trim_def
  removeWhiteSpace_def toUpperCaseUnit_def toLowerCaseUnit_def toUpperCase_def toLowerCase_def

lemmas pitch_defs = LETTER_TO_PC_def normalizeNoteName_def isNoteLetter_def isAccidental_def
  matchNote_def toPitchClass_def jsrem_def

lemmas chord_defs = canonicalize_def testWholeCI_def LITERAL_SUFFIXES_def matchChord_def
  parseLiteralChord_def

lemmas roman_defs = ROMAN_DEGREES_def isRomanLetter_def matchRoman_def parseRomanPart_def
  startsWithCI_def qualityFromRoman_def startsWith_def stripAccidentalCI_def
  resolveDegree_def parseRomanNumeral_def buildScale_def MAJOR_SCALE_def
  NATURAL_MINOR_SCALE_def canonicalize_def

section \<open>Properties of the pitch model\<close>

lemma formatPitchClass_index: "jsrem (jsrem pc 12 + 12) 12 = pc mod 12"
proof (cases "pc < 0")
  case True
  define r where "r = (- pc) mod 12"
  have r: "0 \<le> r" "r < 12" by (simp_all add: r_def)
  have 1: "jsrem pc 12 = - r" using True by (simp add: jsrem_def r_def)
  have 2: "jsrem (- r + 12) 12 = (12 - r) mod 12" using r by (simp add: jsrem_def)
  have "pc mod 12 = (- (- pc)) mod 12" by simp
  also have "\<dots> = (if r = 0 then 0 else 12 - r)"
    unfolding r_def by (rule zmod_zminus1_eq_if)
  also have "\<dots> = (12 - r) mod 12"
  proof (cases "r = 0")
    case True
    then show ?thesis by simp
  next
    case False
    then have "0 \<le> 12 - r" "12 - r < 12" using r by simp_all
    then have "(12 - r) mod 12 = 12 - r" by (rule mod_pos_pos_trivial)
    then show ?thesis using False by (simp only: if_False)
  qed
  finally have 3: "pc mod 12 = (12 - r) mod 12" .
  have "jsrem (jsrem pc 12 + 12) 12 = jsrem (- r + 12) 12" by (simp only: 1)
  then show ?thesis by (simp only: 2 3)
next
  case False
  then show ?thesis by (simp add: jsrem_def)
qed

lemma toPitchClass_names:
  "map toPitchClass SHARP_NAMES = map Some [0, 1, 2, 3, 4, 5, 6, 7, 8, 9, 10, 11]"
  "map toPitchClass FLAT_NAMES = map Some [0, 1, 2, 3, 4, 5, 6, 7, 8, 9, 10, 11]"
  by (simp_all add: SHARP_NAMES_def FLAT_NAMES_def toPitchClass_def normalizeNoteName_def
      removeWhiteSpace_def trim_def isWhiteSpace_def isLineTerminator_def matchNote_def
      isNoteLetter_def isAccidental_def toUpperCase_def toUpperCaseUnit_def LETTER_TO_PC_def
      js_def jsrem_def)

text \<open>
  C8: for every pitch class \<open>pc\<close> in \<open>0..11\<close> and both spelling preferences, formatting
  \<open>pc\<close> and parsing the name again gives \<open>pc\<close>.
\<close>

theorem format_then_parse_roundtrip:
  assumes "0 \<le> pc" and "pc \<le> 11"
  shows "toPitchClass (formatPitchClass pc f) = Some pc"
proof -
  have idx: "jsrem (jsrem pc 12 + 12) 12 = pc"
    using assms by (simp add: formatPitchClass_index)
  have n: "nat pc < 12" using assms by simp
  have len: "length SHARP_NAMES = 12" "length FLAT_NAMES = 12"
    by (simp_all add: SHARP_NAMES_def FLAT_NAMES_def)
  have up: "map Some [0, 1, 2, 3, 4, 5, 6, 7, 8, 9, 10, 11 :: int] ! nat pc = Some pc"
  proof -
    have "[0, 1, 2, 3, 4, 5, 6, 7, 8, 9, 10, 11 :: int] = map int [0..<12]"
      by (simp add: upt_rec)
    then show ?thesis using n assms by simp
  qed
  have s: "toPitchClass (SHARP_NAMES ! nat pc) = Some pc"
    using nth_map [of "nat pc" SHARP_NAMES toPitchClass] n len up
    by (simp add: toPitchClass_names)
  have fl: "toPitchClass (FLAT_NAMES ! nat pc) = Some pc"
    using nth_map [of "nat pc" FLAT_NAMES toPitchClass] n len up
    by (simp add: toPitchClass_names)
  show ?thesis
    using s fl by (simp add: formatPitchClass_def idx)
qed

theorem format_then_parse_roundtrip_witness:
  "(0::int) \<le> 6 \<and> (6::int) \<le> 11 \<and>
   formatPitchClass 6 True = js ''Gb'' \<and>
   toPitchClass (formatPitchClass 6 True) = Some 6"
  using format_then_parse_roundtrip [of 6 True]
  by (simp add: formatPitchClass_def jsrem_def FLAT_NAMES_def)

text \<open>
  The letters of a note name, one by one: the two ranges of \<open>[A-Ga-g]\<close> hold fourteen
  code units.
\<close>

lemma noteLetter_cases:
  assumes "isNoteLetter c"
  shows "c \<in> {0x41, 0x42, 0x43, 0x44, 0x45, 0x46, 0x47, 0x61, 0x62, 0x63, 0x64, 0x65, 0x66, 0x67}"
proof -
  have "(65 \<le> unat c \<and> unat c \<le> 71) \<or> (97 \<le> unat c \<and> unat c \<le> 103)"
    using assms by (simp add: isNoteLetter_def word_le_nat_alt)
  then have "unat c \<in> {65, 66, 67, 68, 69, 70, 71, 97, 98, 99, 100, 101, 102, 103}"
    by auto
  then show ?thesis
    by (auto simp: word_unat_eq_iff)
qed

lemma noteLetter_not_space: "isNoteLetter c \<Longrightarrow> \<not> isWhiteSpace c"
  by (drule noteLetter_cases) (auto simp: isWhiteSpace_def isLineTerminator_def)

lemma accidental_not_space: "isAccidental c \<Longrightarrow> \<not> isWhiteSpace c"
  by (auto simp: isAccidental_def isWhiteSpace_def isLineTerminator_def)

lemma noteLetter_base:
  assumes "isNoteLetter c"
  shows "\<exists>base. LETTER_TO_PC (toUpperCase [c]) = Some base \<and> 0 \<le> base \<and> base \<le> 11"
  using noteLetter_cases [OF assms]
  by (auto simp: LETTER_TO_PC_def toUpperCase_def toUpperCaseUnit_def js_def)

lemma dropWhile_none: "list_all (\<lambda>c. \<not> P c) t \<Longrightarrow> dropWhile P t = t"
  by (cases t) simp_all

lemma normalizeNoteName_clean:
  assumes "list_all (\<lambda>c. \<not> isWhiteSpace c) t"
  shows "normalizeNoteName t = t"
proof -
  have "list_all (\<lambda>c. \<not> isWhiteSpace c) (rev t)" using assms by (simp add: list_all_iff)
  then have "dropWhile isWhiteSpace (rev t) = rev t" by (rule dropWhile_none)
  moreover have "dropWhile isWhiteSpace t = t" using assms by (rule dropWhile_none)
  moreover have "filter (\<lambda>c. \<not> isWhiteSpace c) t = t" using assms by (simp add: list_all_iff)
  ultimately show ?thesis by (simp add: normalizeNoteName_def trim_def removeWhiteSpace_def)
qed

lemma leading_part_clean:
  assumes "isNoteLetter c"
  shows "normalizeNoteName (c # filter isAccidental (take 1 rest)) = c # filter isAccidental (take 1 rest)"
proof (rule normalizeNoteName_clean)
  show "list_all (\<lambda>c. \<not> isWhiteSpace c) (c # filter isAccidental (take 1 rest))"
    using assms noteLetter_not_space accidental_not_space by (auto simp: list_all_iff)
qed

lemma toPitchClass_leading:
  assumes "normalizeNoteName s = c # rest" and "isNoteLetter c"
  shows "toPitchClass s = toPitchClass (c # filter isAccidental (take 1 rest))"
proof (cases rest)
  case Nil
  then show ?thesis
    using assms leading_part_clean [OF assms(2), of rest] by (simp add: toPitchClass_def)
next
  case (Cons a rest')
  then show ?thesis
    using assms leading_part_clean [OF assms(2), of rest]
    by (simp add: toPitchClass_def matchNote_def)
qed

lemma toPitchClass_leading_value:
  assumes "isNoteLetter c"
  shows "\<exists>pc. toPitchClass (c # filter isAccidental (take 1 rest)) = Some pc \<and> 0 \<le> pc \<and> pc < 12"
proof -
  obtain base where b: "LETTER_TO_PC (toUpperCase [c]) = Some base" "0 \<le> base" "base \<le> 11"
    using noteLetter_base [OF assms] by blast
  have r: "\<And>x. 0 \<le> x \<Longrightarrow> 0 \<le> jsrem x 12 \<and> jsrem x 12 < 12"
    by (simp add: jsrem_def)
  have r0: "0 \<le> jsrem (base + 12) 12 \<and> jsrem (base + 12) 12 < 12"
    using b by (intro r) simp
  have r1: "0 \<le> jsrem (base + 1 + 12) 12 \<and> jsrem (base + 1 + 12) 12 < 12"
    using b by (intro r) simp
  have r2: "0 \<le> jsrem (base - 1 + 12) 12 \<and> jsrem (base - 1 + 12) 12 < 12"
    using b by (intro r) simp
  show ?thesis
    using leading_part_clean [OF assms, of rest] assms b(1) r0 r1 r2
    by (cases rest) (auto simp: toPitchClass_def matchNote_def isAccidental_def js_def)
qed

lemma toPitchClass_value:
  assumes "normalizeNoteName s = c # rest" and "isNoteLetter c"
    and "LETTER_TO_PC (toUpperCase [c]) = Some base"
  shows "toPitchClass s =
    Some (jsrem (base + (if take 1 rest = js ''#'' then 1
                         else if take 1 rest = js ''b'' then - 1 else 0) + 12) 12)"
  using assms
  by (cases rest) (simp_all add: toPitchClass_def matchNote_def isAccidental_def js_def)

text \<open>
  C10: when the input without its white space begins with a letter A to G (either case),
  \<open>toPitchClass\<close> succeeds whatever follows. The result is the entry of \<open>LETTER_TO_PC\<close>
  for the letter in upper case, plus 1 when the next code unit is \<open>#\<close>, minus 1 when it is
  \<open>b\<close>, plus 12 and reduced by 12; it lies in \<open>0..11\<close>, and it is the result for the leading
  letter with that accidental alone.
\<close>

theorem toPitchClass_ignores_trailing:
  assumes "normalizeNoteName s = c # rest" and "isNoteLetter c"
  shows "\<exists>base. LETTER_TO_PC (toUpperCase [c]) = Some base \<and>
           toPitchClass s =
             Some (jsrem (base + (if take 1 rest = js ''#'' then 1
                                  else if take 1 rest = js ''b'' then - 1 else 0) + 12) 12) \<and>
           (\<exists>pc. toPitchClass s = Some pc \<and> 0 \<le> pc \<and> pc < 12 \<and>
              toPitchClass (c # filter isAccidental (take 1 rest)) = Some pc)"
proof -
  obtain base where b: "LETTER_TO_PC (toUpperCase [c]) = Some base"
    using noteLetter_base [OF assms(2)] by blast
  have v: "toPitchClass s =
      Some (jsrem (base + (if take 1 rest = js ''#'' then 1
                           else if take 1 rest = js ''b'' then - 1 else 0) + 12) 12)"
    using assms b by (rule toPitchClass_value)
  have l: "\<exists>pc. toPitchClass s = Some pc \<and> 0 \<le> pc \<and> pc < 12 \<and>
      toPitchClass (c # filter isAccidental (take 1 rest)) = Some pc"
    using toPitchClass_leading [OF assms] toPitchClass_leading_value [OF assms(2), of rest]
    by auto
  from b v l show ?thesis by blast
qed

theorem toPitchClass_ignores_trailing_witness:
  "normalizeNoteName (js '' C#xyz'') = 0x43 # js ''#xyz'' \<and> isNoteLetter 0x43 \<and>
   LETTER_TO_PC (toUpperCase [0x43]) = Some 0 \<and>
   toPitchClass (js '' C#xyz'') = Some 1 \<and> toPitchClass (js ''C#'') = Some 1 \<and>
   toPitchClass (js ''Gxyz'') = Some 7 \<and> toPitchClass (js ''bb7'') = Some 10"
proof -
  have h1: "normalizeNoteName (js '' C#xyz'') = 0x43 # js ''#xyz''"
    by (simp add: string_defs normalizeNoteName_def)
  have h2: "isNoteLetter 0x43"
    by (simp add: isNoteLetter_def)
  have t: "LETTER_TO_PC (toUpperCase [0x43]) = Some 0"
    by (simp add: string_defs LETTER_TO_PC_def)
  have a: "jsrem (0 + (if take 1 (js ''#xyz'') = js ''#'' then 1
                       else if take 1 (js ''#xyz'') = js ''b'' then - 1 else 0) + 12) 12 = 1"
    by (simp add: js_def jsrem_def)
  have e: "toPitchClass (js ''C#'') = Some 1"
    by (simp add: string_defs pitch_defs)
  have g: "toPitchClass (js ''Gxyz'') = Some 7"
    by (simp add: string_defs pitch_defs)
  have f: "toPitchClass (js ''bb7'') = Some 10"
    by (simp add: string_defs pitch_defs)
  from toPitchClass_ignores_trailing [OF h1 h2] t
  have "toPitchClass (js '' C#xyz'') =
      Some (jsrem (0 + (if take 1 (js ''#xyz'') = js ''#'' then 1
                        else if take 1 (js ''#xyz'') = js ''b'' then - 1 else 0) + 12) 12)"
    by auto
  then have "toPitchClass (js '' C#xyz'') = Some 1" by (simp only: a)
  with h1 h2 t e g f show ?thesis by blast
qed

section \<open>Properties of the chord model\<close>

lemma zero_interval: "0 \<in> set (CHORD_QUALITY_INTERVALS q)"
  by (cases q) simp_all

lemma chordToneSet_root:
  assumes "0 \<le> root chord" "root chord < 12" "intervals chord = CHORD_QUALITY_INTERVALS (quality chord)"
  shows "root chord \<in> set (chordToneSet chord)"
proof -
  have "jsrem (root chord + 0) 12 = root chord" using assms(1,2) by (simp add: jsrem_def)
  moreover have "0 \<in> set (intervals chord)" using assms(3) zero_interval by simp
  ultimately show ?thesis unfolding chordToneSet_def by (metis (no_types, lifting) image_eqI list.set_map)
qed

text \<open>
  C9: the tone set of a chord whose root is a pitch class and whose intervals are those of
  its quality holds the root; for root 0 and the quality 9 it is the five pitch classes
  0, 4, 7, 10 and 2, the ninth (14) reduced to 2.
\<close>

theorem chordToneSet_root_and_nine:
  "(0 \<le> root chord \<and> root chord < 12 \<and>
      intervals chord = CHORD_QUALITY_INTERVALS (quality chord)
      \<longrightarrow> root chord \<in> set (chordToneSet chord)) \<and>
   chordToneSet \<lparr>root = 0, quality = Nine, intervals = CHORD_QUALITY_INTERVALS Nine\<rparr>
     = [0, 4, 7, 10, 2] \<and>
   set (chordToneSet \<lparr>root = 0, quality = Nine, intervals = CHORD_QUALITY_INTERVALS Nine\<rparr>)
     = {0, 4, 7, 10, 2} \<and>
   distinct (chordToneSet \<lparr>root = 0, quality = Nine, intervals = CHORD_QUALITY_INTERVALS Nine\<rparr>)"
proof -
  have nine: "chordToneSet \<lparr>root = 0, quality = Nine, intervals = CHORD_QUALITY_INTERVALS Nine\<rparr>
      = [0, 4, 7, 10, 2]"
    by (simp add: chordToneSet_def jsrem_def)
  have s: "set [0, 4, 7, 10, 2 :: int] = {0, 4, 7, 10, 2}" by simp
  have d: "distinct [0, 4, 7, 10, 2 :: int]" by simp
  have r: "0 \<le> root chord \<and> root chord < 12 \<and>
      intervals chord = CHORD_QUALITY_INTERVALS (quality chord)
      \<longrightarrow> root chord \<in> set (chordToneSet chord)"
    using chordToneSet_root [of chord] by blast
  show ?thesis
    unfolding nine using r s d by blast
qed

theorem chordToneSet_root_and_nine_witness:
  "0 \<le> root \<lparr>root = 9, quality = Add9, intervals = [0, 4, 7, 14]\<rparr> \<and>
   root \<lparr>root = 9, quality = Add9, intervals = [0, 4, 7, 14]\<rparr> < 12 \<and>
   intervals \<lparr>root = 9, quality = Add9, intervals = [0, 4, 7, 14]\<rparr>
     = CHORD_QUALITY_INTERVALS (quality \<lparr>root = 9, quality = Add9, intervals = [0, 4, 7, 14]\<rparr>) \<and>
   chordToneSet \<lparr>root = 9, quality = Add9, intervals = [0, 4, 7, 14]\<rparr> = [9, 1, 4, 11] \<and>
   9 \<in> set (chordToneSet \<lparr>root = 9, quality = Add9, intervals = [0, 4, 7, 14]\<rparr>)"
  using chordToneSet_root_and_nine [of "\<lparr>root = 9, quality = Add9, intervals = [0, 4, 7, 14]\<rparr>"]
  by (simp add: chordToneSet_def jsrem_def)

section \<open>Properties of the literal parser\<close>

text \<open>
  C2: the suffix \<open>m7\<close> meets the table at its first entry, whose alternative \<open>M7\<close> is
  compared without regard to case, before the entry of min7 is reached: the first match
  of \<open>m7\<close> in the table has the quality maj7, and the literal \<open>Cm7\<close> parses to the root
  0 with the quality maj7, not min7.
\<close>

theorem parseLiteralChord_Cm7:
  "testWholeCI (fst (LITERAL_SUFFIXES ! 0)) (js ''m7'') \<and>
   snd (LITERAL_SUFFIXES ! 0) = Maj7 \<and>
   map_option snd (find (\<lambda>entry. testWholeCI (fst entry) (js ''m7'')) LITERAL_SUFFIXES)
     = Some Maj7 \<and>
   parseLiteralChord (js ''Cm7'')
     = Inr \<lparr>root = 0, quality = Maj7, intervals = [0, 4, 7, 11]\<rparr>"
proof -
  have 0: "map_option snd (find (\<lambda>entry. testWholeCI (fst entry) (js ''m7'')) LITERAL_SUFFIXES)
      = Some Maj7"
    by (simp add: string_defs chord_defs)
  have 1: "testWholeCI (fst (LITERAL_SUFFIXES ! 0)) (js ''m7'')"
    by (simp add: string_defs chord_defs)
  have 2: "snd (LITERAL_SUFFIXES ! 0) = Maj7"
    by (simp add: LITERAL_SUFFIXES_def)
  have 3: "parseLiteralChord (js ''Cm7'')
      = Inr \<lparr>root = 0, quality = Maj7, intervals = [0, 4, 7, 11]\<rparr>"
    by (simp add: string_defs pitch_defs chord_defs)
  from 0 1 2 3 show ?thesis by blast
qed

section \<open>Properties of the roman numeral parser\<close>

text \<open>
  A string that starts with \<open>VII\<close> starts with \<open>V\<close>: the test for \<open>V\<close> comes first in
  \<open>parseRomanNumeral\<close>, so the branch of \<open>VII\<close> is never taken.
\<close>

lemma startsWith_VII_V:
  assumes "startsWith s (js ''VII'')"
  shows "startsWith s (js ''V'')"
  using assms by (cases s) (auto simp: startsWith_def js_def)

text \<open>
  Hence every two-part input that parses has the root a fifth above its target, whatever
  its left-hand side is.
\<close>

lemma secondary_root_always_fifth:
  assumes "splitOn 0x2F (removeWhiteSpace (trim input)) = [l, r]"
    and "parseRomanNumeral input keyTonic keyType = Inr chord"
  shows "\<exists>target keyRoot. parseRomanPart r = Some target \<and> toPitchClass keyTonic = Some keyRoot \<and>
     root chord = jsrem (resolveDegree (buildScale keyRoot keyType) (degree target)
       (accidental target) + 7) 12"
proof -
  have ne: "removeWhiteSpace (trim input) \<noteq> []"
    using assms(1) by (cases "removeWhiteSpace (trim input)") auto
  show ?thesis
    using assms ne startsWith_VII_V
    by (auto simp: parseRomanNumeral_def Let_def split: option.splits if_splits)
qed

text \<open>
  The leading-tone chord of V in any key that \<open>toPitchClass\<close> accepts, and both modes:
  the root is the fifth degree plus 7.
\<close>

lemma secondary_VII_any_key:
  assumes "toPitchClass keyTonic = Some keyRoot"
  shows "parseRomanNumeral (js ''vii'' @ [0xB0] @ js ''/V'') keyTonic keyType
     = Inr \<lparr>root = jsrem (resolveDegree (buildScale keyRoot keyType) 5 0 + 7) 12,
            quality = Dim, intervals = [0, 3, 6]\<rparr>"
  using assms
  by (simp add: string_defs ROMAN_DEGREES_def isRomanLetter_def matchRoman_def parseRomanPart_def
  startsWithCI_def qualityFromRoman_def startsWith_def stripAccidentalCI_def
   parseRomanNumeral_def  canonicalize_def isAccidental_def)

text \<open>
  C1: on a two-part input whose left-hand numeral begins with \<open>VII\<close> the parser succeeds,
  and the root it gives is the target plus 7, not the target plus 11. In C major, the
  leading-tone chord of V (target 7) gets the root 2, and \<open>VII/ii\<close> (target 2) the root 9.
\<close>

theorem parseRomanNumeral_secondary_VII:
  "parseRomanNumeral (js ''vii'' @ [0xB0] @ js ''/V'') (js ''C'') Major
     = Inr \<lparr>root = 2, quality = Dim, intervals = [0, 3, 6]\<rparr> \<and>
   parseRomanNumeral (js ''VII/ii'') (js ''C'') Major
     = Inr \<lparr>root = 9, quality = Maj, intervals = [0, 4, 7]\<rparr>"
proof -
  have 1: "parseRomanNumeral (js ''vii'' @ [0xB0] @ js ''/V'') (js ''C'') Major
      = Inr \<lparr>root = 2, quality = Dim, intervals = [0, 3, 6]\<rparr>"
    by (simp add: string_defs pitch_defs roman_defs)
  have 2: "parseRomanNumeral (js ''VII/ii'') (js ''C'') Major
      = Inr \<lparr>root = 9, quality = Maj, intervals = [0, 4, 7]\<rparr>"
    by (simp add: string_defs pitch_defs roman_defs)
  from 1 2 show ?thesis by blast
qed

text \<open>
  C3, as stated: \<open>bVII\<close> in A minor does not resolve to a major triad on the pitch class 7.
\<close>

theorem parseRomanNumeral_bVII_not_G:
  "\<not> (\<exists>chord. parseRomanNumeral (js ''bVII'') (js ''A'') Minor = Inr chord \<and>
         quality chord = Maj \<and> root chord = 7)"
  by (simp add: string_defs pitch_defs roman_defs)

text \<open>
  C3, amended: \<open>bVII\<close> in A minor resolves without error to a major triad on the pitch
  class 6: the seventh degree of the natural minor scale of A is 7, and the flat lowers
  it by one.
\<close>

theorem parseRomanNumeral_bVII_A_minor:
  "buildScale 9 Minor ! 6 = 7 \<and>
   parseRomanNumeral (js ''bVII'') (js ''A'') Minor
     = Inr \<lparr>root = 6, quality = Maj, intervals = [0, 4, 7]\<rparr>"
proof -
  have 1: "buildScale 9 Minor ! 6 = 7"
    by (simp add: buildScale_def NATURAL_MINOR_SCALE_def jsrem_def)
  have 2: "parseRomanNumeral (js ''bVII'') (js ''A'') Minor
      = Inr \<lparr>root = 6, quality = Maj, intervals = [0, 4, 7]\<rparr>"
    by (simp add: string_defs pitch_defs roman_defs)
  from 1 2 show ?thesis by blast
qed

lemma qualityFromRoman_not_None: "qualityFromRoman parts \<noteq> None"
  by (simp add: qualityFromRoman_def Let_def)

lemma parseRomanNumeral_quality_error:
  "parseRomanNumeral input keyTonic keyType \<noteq> Inl UnsupportedRomanQuality"
  by (auto simp: parseRomanNumeral_def Let_def qualityFromRoman_not_None
      split: option.splits if_splits)

text \<open>
  C6: the quality derivation returns a quality on every path, so no input, key and mode
  make \<open>parseRomanNumeral\<close> fail with the unsupported-quality error. A numeral with a
  suffix that holds none of the markers is accepted with the suffix ignored: \<open>Vxyz\<close> and
  \<open>V7\<close> in C major are the major triad on 7, and \<open>iixyz\<close> the minor triad on 2.
\<close>

theorem parseRomanNumeral_quality_error_unreachable:
  "\<not> (\<exists>input keyTonic keyType.
         parseRomanNumeral input keyTonic keyType = Inl UnsupportedRomanQuality) \<and>
   qualityFromRoman \<lparr>accidental = 0, degree = 5, isLower = False, suffix = js ''xyz''\<rparr>
     = Some Maj \<and>
   parseRomanNumeral (js ''Vxyz'') (js ''C'') Major
     = Inr \<lparr>root = 7, quality = Maj, intervals = [0, 4, 7]\<rparr> \<and>
   parseRomanNumeral (js ''V7'') (js ''C'') Major
     = Inr \<lparr>root = 7, quality = Maj, intervals = [0, 4, 7]\<rparr> \<and>
   parseRomanNumeral (js ''iixyz'') (js ''C'') Major
     = Inr \<lparr>root = 2, quality = Min, intervals = [0, 3, 7]\<rparr>"
proof -
  have 0: "\<not> (\<exists>input keyTonic keyType.
      parseRomanNumeral input keyTonic keyType = Inl UnsupportedRomanQuality)"
    using parseRomanNumeral_quality_error by blast
  have 1: "qualityFromRoman \<lparr>accidental = 0, degree = 5, isLower = False, suffix = js ''xyz''\<rparr>
      = Some Maj"
    by (simp add: string_defs roman_defs)
  have 2: "parseRomanNumeral (js ''Vxyz'') (js ''C'') Major
      = Inr \<lparr>root = 7, quality = Maj, intervals = [0, 4, 7]\<rparr>"
    by (simp add: string_defs pitch_defs roman_defs)
  have 3: "parseRomanNumeral (js ''V7'') (js ''C'') Major
      = Inr \<lparr>root = 7, quality = Maj, intervals = [0, 4, 7]\<rparr>"
    by (simp add: string_defs pitch_defs roman_defs)
  have 4: "parseRomanNumeral (js ''iixyz'') (js ''C'') Major
      = Inr \<lparr>root = 2, quality = Min, intervals = [0, 3, 7]\<rparr>"
    by (simp add: string_defs pitch_defs roman_defs)
  from 0 1 2 3 4 show ?thesis by blast
qed

section \<open>Properties of the CAGED regions\<close>

text \<open>
  C4: for C major on the frets 0 to 15 the result is the five reference windows,
  unshifted, in the order C, A, G, E, D of the templates.
\<close>

theorem getCagedRegionsForKey_C_major:
  "getCagedRegionsForKey 0 Major 0 15 =
     [\<lparr>id_region = ShapeC, label_region = js ''C shape'', fretStart = 0, fretEnd = 4\<rparr>,
      \<lparr>id_region = ShapeA, label_region = js ''A shape'', fretStart = 2, fretEnd = 6\<rparr>,
      \<lparr>id_region = ShapeG, label_region = js ''G shape'', fretStart = 2, fretEnd = 6\<rparr>,
      \<lparr>id_region = ShapeE, label_region = js ''E shape'', fretStart = 7, fretEnd = 11\<rparr>,
      \<lparr>id_region = ShapeD, label_region = js ''D shape'', fretStart = 8, fretEnd = 12\<rparr>]"
  by code_simp

lemma clampWindow_Some:
  assumes "clampWindow a b mn mx = Some (s, e)"
  shows "mn \<le> s \<and> s \<le> e \<and> e \<le> mx"
  using assms by (auto simp: clampWindow_def Let_def split: if_splits)

lemma regionOfTemplate_Some:
  assumes "regionOfTemplate diff fmin fmax t = Some r"
  shows "fmin \<le> fretStart r \<and> fretStart r \<le> fretEnd r \<and> fretEnd r \<le> fmax"
proof -
  obtain a b where w: "clampWindow a b fmin fmax = Some (fretStart r, fretEnd r)"
    using assms by (auto simp: regionOfTemplate_def Let_def split: option.splits)
  then show ?thesis by (rule clampWindow_Some)
qed

lemma map_filter_member:
  assumes "r \<in> set (List.map_filter f xs)"
  shows "\<exists>x. f x = Some r"
  using assms by (auto simp: List.map_filter_def)

text \<open>
  C5: every region of the result lies inside the fret range and is not empty:
  \<open>fretMin \<le> fretStart \<le> fretEnd \<le> fretMax\<close>, for every key, mode and fret range.
\<close>

theorem caged_regions_clamped:
  assumes "r \<in> set (getCagedRegionsForKey keyTonicPc keyType fretMin fretMax)"
  shows "fretMin \<le> fretStart r \<and> fretStart r \<le> fretEnd r \<and> fretEnd r \<le> fretMax"
proof -
  obtain diff t where "regionOfTemplate diff fretMin fretMax t = Some r"
    using assms map_filter_member unfolding getCagedRegionsForKey_def Let_def by fastforce
  then show ?thesis by (rule regionOfTemplate_Some)
qed

theorem caged_regions_clamped_witness:
  "\<lparr>id_region = ShapeE, label_region = js ''E shape'', fretStart = 1, fretEnd = 5\<rparr>
     \<in> set (getCagedRegionsForKey 6 Major 0 15) \<and>
   (0::int) \<le> 1 \<and> (1::int) \<le> 5 \<and> (5::int) \<le> 15 \<and>
   getCagedRegionsForKey 0 Major 20 25 = []"
proof -
  have m: "\<lparr>id_region = ShapeE, label_region = js ''E shape'', fretStart = 1, fretEnd = 5\<rparr>
      \<in> set (getCagedRegionsForKey 6 Major 0 15)"
    by code_simp
  have e: "getCagedRegionsForKey 0 Major 20 25 = []"
    by code_simp
  from caged_regions_clamped [OF m] m e show ?thesis by simp
qed

section \<open>Properties of the voicings\<close>

text \<open>
  Every fret of the table \<open>VOICINGS\<close> is a fret number (0 or more) or the sentinel \<open>-1\<close>
  of a muted string.
\<close>

lemma VOICINGS_frets: "list_all (\<lambda>shape. list_all (\<lambda>f. - 1 \<le> f) (frets shape)) VOICINGS"
  by (simp add: VOICINGS_def)

lemma resolve_nonmovable: "\<not> movable shape \<Longrightarrow> resolveVoicingFrets shape t = frets shape"
  by (simp add: resolveVoicingFrets_def)

lemma map_sentinel_id:
  "list_all (\<lambda>f. - 1 \<le> f) xs \<Longrightarrow> map (\<lambda>fret. if fret < 0 then - 1 else fret + 0) xs = (xs :: int list)"
  by (induction xs) auto

text \<open>The offset for the base root itself (\<open>d = 0\<close>) and for one octave above it.\<close>

lemma resolve_same_root:
  assumes "movable shape" and "list_all (\<lambda>f. - 1 \<le> f) (frets shape)"
    and "d = 0 \<or> d = 12"
  shows "resolveVoicingFrets shape (BASE_ROOT_PC (baseRoot shape) + d) = frets shape"
proof -
  have "BASE_ROOT_PC (baseRoot shape) + d - BASE_ROOT_PC (baseRoot shape) + 12 = d + 12"
    by simp
  moreover have "jsrem (d + 12) 12 = 0"
    using assms(3) by (auto simp: jsrem_def)
  ultimately have off:
    "jsrem (BASE_ROOT_PC (baseRoot shape) + d - BASE_ROOT_PC (baseRoot shape) + 12) 12 = 0"
    by (simp only:)
  have m: "map (\<lambda>fret. if fret < 0 then - 1 else fret + 0) (frets shape) = frets shape"
    using assms(2) by (rule map_sentinel_id)
  show ?thesis
    unfolding resolveVoicingFrets_def Let_def off using assms(1) m by simp
qed

text \<open>
  C7: a shape that is not movable keeps its fret list for every target root. A movable
  shape whose frets are fret numbers (0 or more) or the sentinel \<open>-1\<close> of a muted string,
  as the data model has them and as every entry of \<open>VOICINGS\<close> is, keeps its fret list
  when the target root is the pitch class of its base root, or that pitch class plus 12:
  the offset is 0, and the muted strings stay \<open>-1\<close>.
\<close>

theorem resolveVoicingFrets_unchanged:
  "(\<not> movable shape \<longrightarrow> resolveVoicingFrets shape targetRoot = frets shape) \<and>
   (movable shape \<and> list_all (\<lambda>f. - 1 \<le> f) (frets shape) \<longrightarrow>
      resolveVoicingFrets shape (BASE_ROOT_PC (baseRoot shape)) = frets shape \<and>
      resolveVoicingFrets shape (BASE_ROOT_PC (baseRoot shape) + 12) = frets shape)"
  using resolve_nonmovable [of shape targetRoot] resolve_same_root [of shape 0]
    resolve_same_root [of shape 12]
  by simp

theorem resolveVoicingFrets_unchanged_witness:
  "\<not> movable \<lparr>id_shape = js ''open-c-maj'', name_shape = js ''Open C'', quality_shape = Maj,
        baseRoot = RootC, frets = [- 1, 3, 2, 0, 1, 0], movable = False\<rparr> \<and>
   resolveVoicingFrets \<lparr>id_shape = js ''open-c-maj'', name_shape = js ''Open C'',
        quality_shape = Maj, baseRoot = RootC, frets = [- 1, 3, 2, 0, 1, 0],
        movable = False\<rparr> 5 = [- 1, 3, 2, 0, 1, 0] \<and>
   movable \<lparr>id_shape = js ''a-shape-maj'', name_shape = js ''A-shape Maj'', quality_shape = Maj,
        baseRoot = RootA, frets = [- 1, 0, 2, 2, 2, 0], movable = True\<rparr> \<and>
   list_all (\<lambda>f. - 1 \<le> f) [- 1, 0, 2, 2, 2, 0 :: int] \<and>
   resolveVoicingFrets \<lparr>id_shape = js ''a-shape-maj'', name_shape = js ''A-shape Maj'',
        quality_shape = Maj, baseRoot = RootA, frets = [- 1, 0, 2, 2, 2, 0],
        movable = True\<rparr> 9 = [- 1, 0, 2, 2, 2, 0] \<and>
   resolveVoicingFrets \<lparr>id_shape = js ''a-shape-maj'', name_shape = js ''A-shape Maj'',
        quality_shape = Maj, baseRoot = RootA, frets = [- 1, 0, 2, 2, 2, 0],
        movable = True\<rparr> 21 = [- 1, 0, 2, 2, 2, 0]"
  using resolveVoicingFrets_unchanged [of
      "\<lparr>id_shape = js ''open-c-maj'', name_shape = js ''Open C'', quality_shape = Maj,
        baseRoot = RootC, frets = [- 1, 3, 2, 0, 1, 0], movable = False\<rparr>" 5]
    resolveVoicingFrets_unchanged [of
      "\<lparr>id_shape = js ''a-shape-maj'', name_shape = js ''A-shape Maj'', quality_shape = Maj,
        baseRoot = RootA, frets = [- 1, 0, 2, 2, 2, 0], movable = True\<rparr>" 0]
  by simp

end
